theory Spec2Isabelle
  imports Complex_Main
begin

section \<open>Score post-LLM pipeline: curve computation and grading\<close>

text \<open>
  A shallow embedding of the TypeScript pipeline functions
  (\<^verbatim>\<open>generateReportJSON\<close>, \<^verbatim>\<open>createScorePool\<close>, \<^verbatim>\<open>computeCurve\<close>,
  \<^verbatim>\<open>applyCurve\<close> of the synthetic-data module, and \<^verbatim>\<open>extractBaseProblemId\<close>,
  \<^verbatim>\<open>checkCompatibility\<close> of the schema module).

  Conventions of the embedding:
  \<^item> a JavaScript \<^verbatim>\<open>number\<close> is a \<^typ>\<open>real\<close>, the exact value of a finite IEEE double;
    every arithmetic operation of the source rounds its exact result to the nearest double
    (section "IEEE double arithmetic"), and a decimal literal of the source is the double
    nearest to it. Infinities are not modelled: the numbers of this pipeline are scores of
    \<open>[0, 1]\<close>, sums of scores and list lengths, on which no operation overflows.
    \<^verbatim>\<open>NaN\<close>, where it can arise, is the value \<^term>\<open>None\<close> of an option;
  \<^item> the impure inputs of the module (\<^verbatim>\<open>Math.random()\<close>, \<^verbatim>\<open>randomUUID()\<close>,
    \<^verbatim>\<open>new Date().toISOString()\<close>) are explicit arguments;
  \<^item> a thrown \<^verbatim>\<open>Error\<close> is the left injection of a sum;
  \<^item> record fields keep the source's names; where two object types share a field name, or
    the name is a keyword of Isabelle (\<^verbatim>\<open>method\<close>), the field carries a short prefix.
\<close>

subsection \<open>Configuration constants\<close>

definition PROBLEM_IDS :: "string list" where
  "PROBLEM_IDS = [''003400'', ''003401'', ''005000'', ''005001'', ''010000'', ''010001'']"

definition DIMENSION_IDS :: "string list" where
  "DIMENSION_IDS =
     [''discovery'', ''representation'', ''iterative-refinement'', ''exploratory'',
      ''self-verification'']"

definition EVENT_ID :: string where
  "EVENT_ID = ''event_2024_01''"

definition PROMPT_VERSION_HASH :: string where
  "PROMPT_VERSION_HASH = ''abc1234def5678''"

subsection \<open>Data model\<close>

datatype grade = GradeA | GradeB | GradeC | GradeD

datatype error = Error string

record ability_score =
  dimension_id :: string
  score :: real

record problem_score =
  problem_id :: string
  objective_score :: real
  dimension_scores :: "ability_score list"

record totals =
  total_problem_score :: real
  total_ability_score :: real
  final_total_score :: real

record json_scores =
  source_report_id :: string
  event_id :: string
  participant_id :: string
  totals :: totals
  ability_scores :: "ability_score list"
  problem_scores :: "problem_score list"

record score_pool =
  sp_event_id :: string
  sp_prompt_version_hash :: string
  sp_problem_ids :: "string list"
  sp_dimension_ids :: "string list"
  scores :: "json_scores list"

datatype curve_method =
    Percentile "real list"
  | Standard_deviation "real list"
  | Absolute "real list"

record threshold_definition =
  thresholds :: "real list"
  grades :: "grade list"

record ability_curve =
  ac_dimension_id :: string
  ac_thresholds :: "real list"
  ac_grades :: "grade list"

record problem_curve =
  pc_problem_id :: string
  pc_thresholds :: "real list"
  pc_grades :: "grade list"

record curve_totals =
  total_problem :: threshold_definition
  total_ability :: threshold_definition
  final_total :: threshold_definition

record curve =
  curve_id :: string
  source_event_id :: string
  prompt_version_hash :: string
  problem_ids :: "string list"
  dimension_ids :: "string list"
  c_method :: curve_method
  sample_size :: nat
  computed_at :: string
  c_totals :: curve_totals
  ability_curves :: "ability_curve list"
  problem_curves :: "problem_curve list"

record total_grades =
  total_problem_grade :: grade
  total_ability_grade :: grade
  final_total_grade :: grade

record ability_grade =
  ag_dimension_id :: string
  ag_grade :: grade

record problem_grade =
  pg_problem_id :: string
  pg_grade :: grade

record curved_letter_grades =
  source_scores_id :: string
  clg_curve_id :: string
  clg_computed_at :: string
  total_grades :: total_grades
  ability_grades :: "ability_grade list"
  problem_grades :: "problem_grade list"

text \<open>
  A problem inside a report: \<^verbatim>\<open>dimension_scores\<close> is an object keyed by dimension id,
  kept as an association list in key-insertion order.
\<close>

record problem_in_report =
  rp_problem_id :: string
  rp_dimension_scores :: "(string \<times> real) list"
  rp_objective_score :: real

record differences =
  prompt_version_mismatch :: bool
  problem_id_differences :: "string list option"
  dimension_id_differences :: "string list option"

datatype compatibility_result =
    Compatible
  | Incompatible "string list"
  | Requires_override "string list" differences

record compat_options =
  allowLanguageDifference :: "bool option"

subsection \<open>IEEE double arithmetic\<close>

text \<open>
  A finite double is a real \<open>m * 2^e\<close> with an integer \<open>m\<close> of magnitude below \<open>2^53\<close> and
  \<open>e \<ge> -1074\<close>. \<^verbatim>\<open>expo x\<close> is the binary exponent of \<open>x\<close>, \<^verbatim>\<open>ulp x\<close> the distance
  between neighbouring doubles around \<open>x\<close> (constant \<open>2^-1074\<close> in the subnormal range), and
  \<^verbatim>\<open>fl x\<close> the double nearest to \<open>x\<close>, a tie going to the neighbour with the even
  significand: the default rounding of IEEE 754, which JavaScript prescribes for \<^verbatim>\<open>+\<close>,
  \<^verbatim>\<open>-\<close>, \<^verbatim>\<open>*\<close>, \<^verbatim>\<open>/\<close> and for reading a decimal literal.

  In the program an exact result of magnitude \<open>2^1024 - 2^970\<close> or more rounds to an
  infinity, and arithmetic on infinities can give \<^verbatim>\<open>NaN\<close>. Neither is a value of this
  model, which therefore describes the program on the inputs that keep every result below
  that bound. The numbers the pipeline computes on are scores, doubles of \<open>[0, 1]\<close>: for
  them every intermediate result of the threshold computation lies between \<open>-1\<close> and
  \<open>2^53\<close> (section "Scores never leave the range of the doubles").
\<close>

definition expo :: "real \<Rightarrow> int" where
  "expo x = \<lfloor>log 2 \<bar>x\<bar>\<rfloor>"

definition ulp :: "real \<Rightarrow> real" where
  "ulp x = 2 powi (max (expo x) (- 1022) - 52)"

definition round_even :: "real \<Rightarrow> int" where
  "round_even r =
     (let f = \<lfloor>r\<rfloor>
      in if r - of_int f < 1 / 2 then f
         else if 1 / 2 < r - of_int f then f + 1
         else if even f then f else f + 1)"

definition fl :: "real \<Rightarrow> real" where
  "fl x = sgn x * (of_int (round_even (\<bar>x\<bar> / ulp x)) * ulp x)"

text \<open>The operators \<^verbatim>\<open>a + b\<close>, \<^verbatim>\<open>a - b\<close>, \<^verbatim>\<open>a * b\<close> and \<^verbatim>\<open>a / b\<close> on numbers.\<close>

definition fadd :: "real \<Rightarrow> real \<Rightarrow> real" where
  "fadd a b = fl (a + b)"

definition fsub :: "real \<Rightarrow> real \<Rightarrow> real" where
  "fsub a b = fl (a - b)"

definition fmul :: "real \<Rightarrow> real \<Rightarrow> real" where
  "fmul a b = fl (a * b)"

definition fdiv :: "real \<Rightarrow> real \<Rightarrow> real" where
  "fdiv a b = fl (a / b)"

subsection \<open>Numeric helpers\<close>

text \<open>
  \<^verbatim>\<open>Math.round\<close>: the nearest integer, a tie going to the larger one. The result is exact
  (an integer of this size is a double).
\<close>

definition Math_round :: "real \<Rightarrow> real" where
  "Math_round x = of_int \<lfloor>x + 1 / 2\<rfloor>"

text \<open>\<^verbatim>\<open>Math.sqrt\<close>: the square root, correctly rounded. Its argument here is never negative.\<close>

definition Math_sqrt :: "real \<Rightarrow> real" where
  "Math_sqrt x = fl (sqrt x)"

text \<open>
  \<^verbatim>\<open>Math.pow(x, 2)\<close>: the square of \<open>x\<close>, rounded once (the engine returns \<^verbatim>\<open>x * x\<close> for the
  exponent 2).
\<close>

definition Math_pow_2 :: "real \<Rightarrow> real" where
  "Math_pow_2 x = fl (x * x)"

text \<open>\<^verbatim>\<open>const clamp = (v) => Math.max(0, Math.min(1, v))\<close>\<close>

definition clamp :: "real \<Rightarrow> real" where
  "clamp v = max 0 (min 1 v)"

text \<open>\<^verbatim>\<open>randomScore\<close>, given the value \<^verbatim>\<open>Math.random()\<close> returned.\<close>

definition randomScore :: "real \<Rightarrow> real" where
  "randomScore r = fdiv (Math_round (fmul r 100)) 100"

subsection \<open>Curve computation\<close>

definition computeStdDevThresholds :: "real list \<Rightarrow> real list" where
  "computeStdDevThresholds vals =
     (if length vals = 0 then [fl (8 / 10), fl (5 / 10), fl (2 / 10)]
      else
        let mean = fdiv (foldl (\<lambda>a b. fadd a b) 0 vals) (real (length vals));
            variance =
              fdiv (foldl (\<lambda>sum v. fadd sum (Math_pow_2 (fsub v mean))) 0 vals)
                   (real (length vals));
            stdDev = Math_sqrt variance
        in [fdiv (Math_round (fmul (clamp (fadd mean stdDev)) 1000)) 1000,
            fdiv (Math_round (fmul (clamp mean) 1000)) 1000,
            fdiv (Math_round (fmul (clamp (fsub mean stdDev)) 1000)) 1000])"

definition ABCD :: "grade list" where
  "ABCD = [GradeA, GradeB, GradeC, GradeD]"

text \<open>
  \<^verbatim>\<open>createScorePool\<close>: the only check is the one on the empty array; the problem ids,
  dimension ids and prompt hash of the pool are the module's constants.
\<close>

definition createScorePool :: "json_scores list \<Rightarrow> error + score_pool" where
  "createScorePool ss =
     (case ss of
        [] \<Rightarrow> Inl (Error ''Cannot create score pool from empty scores array'')
      | s0 # _ \<Rightarrow>
          Inr \<lparr> sp_event_id = event_id s0,
                sp_prompt_version_hash = PROMPT_VERSION_HASH,
                sp_problem_ids = PROBLEM_IDS,
                sp_dimension_ids = DIMENSION_IDS,
                scores = ss \<rparr>)"

definition abilityThresholds :: "json_scores list \<Rightarrow> ability_curve list" where
  "abilityThresholds ss =
     map (\<lambda>did.
            let dimScores =
                  concat (map (\<lambda>s. map score (filter (\<lambda>a. dimension_id a = did) (ability_scores s))) ss)
            in \<lparr> ac_dimension_id = did,
                 ac_thresholds = computeStdDevThresholds dimScores,
                 ac_grades = ABCD \<rparr>)
         DIMENSION_IDS"

definition problemThresholds :: "json_scores list \<Rightarrow> problem_curve list" where
  "problemThresholds ss =
     map (\<lambda>pid.
            let probScores =
                  concat (map (\<lambda>s. map objective_score
                                       (filter (\<lambda>p. problem_id p = pid) (problem_scores s))) ss)
            in \<lparr> pc_problem_id = pid,
                 pc_thresholds = computeStdDevThresholds probScores,
                 pc_grades = ABCD \<rparr>)
         PROBLEM_IDS"

text \<open>
  \<^verbatim>\<open>computeCurve pool\<close>; \<open>uuid\<close> is the value of \<^verbatim>\<open>randomUuid()\<close> and \<open>now\<close> the
  value of \<^verbatim>\<open>now()\<close> at the call.
\<close>

definition computeCurve :: "score_pool \<Rightarrow> string \<Rightarrow> string \<Rightarrow> curve" where
  "computeCurve pool uuid now =
     (let ss = scores pool;
          totalProblemScores = map (\<lambda>s. total_problem_score (totals s)) ss;
          totalAbilityScores = map (\<lambda>s. total_ability_score (totals s)) ss;
          finalTotalScores = map (\<lambda>s. final_total_score (totals s)) ss
      in \<lparr> curve_id = uuid,
           source_event_id = sp_event_id pool,
           prompt_version_hash = sp_prompt_version_hash pool,
           problem_ids = sp_problem_ids pool,
           dimension_ids = sp_dimension_ids pool,
           c_method = Standard_deviation [1, 0, -1],
           sample_size = length ss,
           computed_at = now,
           c_totals =
             \<lparr> total_problem =
                 \<lparr> thresholds = computeStdDevThresholds totalProblemScores, grades = ABCD \<rparr>,
               total_ability =
                 \<lparr> thresholds = computeStdDevThresholds totalAbilityScores, grades = ABCD \<rparr>,
               final_total =
                 \<lparr> thresholds = computeStdDevThresholds finalTotalScores, grades = ABCD \<rparr> \<rparr>,
           ability_curves = abilityThresholds ss,
           problem_curves = problemThresholds ss \<rparr>)"

subsection \<open>Grade assignment\<close>

text \<open>
  \<^verbatim>\<open>thresholds[i]\<close> is \<^verbatim>\<open>undefined\<close> past the end of the array, and
  \<^verbatim>\<open>score >= undefined\<close> is false.
\<close>

definition js_index :: "'a list \<Rightarrow> nat \<Rightarrow> 'a option" where
  "js_index xs i = (if i < length xs then Some (xs ! i) else None)"

definition js_ge :: "real \<Rightarrow> real option \<Rightarrow> bool" where
  "js_ge x t = (case t of None \<Rightarrow> False | Some v \<Rightarrow> v \<le> x)"

definition getGrade :: "real \<Rightarrow> real list \<Rightarrow> grade" where
  "getGrade sc ths =
     (if js_ge sc (js_index ths 0) then GradeA
      else if js_ge sc (js_index ths 1) then GradeB
      else if js_ge sc (js_index ths 2) then GradeC
      else GradeD)"

text \<open>The literal \<^verbatim>\<open>[0.8, 0.6, 0.4]\<close> that stands in for a missing curve entry.\<close>

definition fallbackThresholds :: "real list" where
  "fallbackThresholds = [fl (8 / 10), fl (6 / 10), fl (4 / 10)]"

text \<open>
  \<^verbatim>\<open>applyCurve scores curve\<close>; \<open>now\<close> is the value of \<^verbatim>\<open>now()\<close> at the call. The
  function has no \<^verbatim>\<open>throw\<close>: it returns a value on every input.
\<close>

definition applyCurve :: "json_scores \<Rightarrow> curve \<Rightarrow> string \<Rightarrow> curved_letter_grades" where
  "applyCurve ss cv now =
     (let totalProblemGrade =
            getGrade (total_problem_score (totals ss)) (thresholds (total_problem (c_totals cv)));
          totalAbilityGrade =
            getGrade (total_ability_score (totals ss)) (thresholds (total_ability (c_totals cv)));
          finalTotalGrade =
            getGrade (final_total_score (totals ss)) (thresholds (final_total (c_totals cv)));
          abilityGrades =
            map (\<lambda>a.
                   let curveData = find (\<lambda>c. ac_dimension_id c = dimension_id a) (ability_curves cv)
                   in \<lparr> ag_dimension_id = dimension_id a,
                        ag_grade =
                          getGrade (score a)
                            (case curveData of
                               Some c \<Rightarrow> ac_thresholds c
                             | None \<Rightarrow> fallbackThresholds) \<rparr>)
                (ability_scores ss);
          problemGrades =
            map (\<lambda>p.
                   let curveData = find (\<lambda>c. pc_problem_id c = problem_id p) (problem_curves cv)
                   in \<lparr> pg_problem_id = problem_id p,
                        pg_grade =
                          getGrade (objective_score p)
                            (case curveData of
                               Some c \<Rightarrow> pc_thresholds c
                             | None \<Rightarrow> fallbackThresholds) \<rparr>)
                (problem_scores ss)
      in \<lparr> source_scores_id = source_report_id ss,
           clg_curve_id = curve_id cv,
           clg_computed_at = now,
           total_grades =
             \<lparr> total_problem_grade = totalProblemGrade,
               total_ability_grade = totalAbilityGrade,
               final_total_grade = finalTotalGrade \<rparr>,
           ability_grades = abilityGrades,
           problem_grades = problemGrades \<rparr>)"

subsection \<open>Report generation\<close>

text \<open>
  \<^verbatim>\<open>generateDimensionDependencies\<close>: for each dimension, the problems the configuration
  lists as contributing to it.
\<close>

definition generateDimensionDependencies :: "(string \<times> string list) list" where
  "generateDimensionDependencies =
     [(''discovery'', [''003400'', ''003401'', ''005000'', ''005001'']),
      (''representation'', [''003400'', ''003401'', ''010000'', ''010001'']),
      (''iterative-refinement'', [''005000'', ''005001'', ''010000'', ''010001'']),
      (''exploratory'',
         [''003400'', ''003401'', ''005000'', ''005001'', ''010000'', ''010001'']),
      (''self-verification'', [''003400'', ''003401'', ''005000'', ''005001''])]"

text \<open>
  The problems of a generated report. \<open>rand k\<close> is the value of the \<open>k\<close>-th call of
  \<^verbatim>\<open>Math.random()\<close> (counted from 0): each problem draws one score per dimension, in the
  order of \<^verbatim>\<open>DIMENSION_IDS\<close>, and then its objective score.
\<close>

definition generateProblems :: "(nat \<Rightarrow> real) \<Rightarrow> problem_in_report list" where
  "generateProblems rand =
     map (\<lambda>(i, pid).
            \<lparr> rp_problem_id = pid,
              rp_dimension_scores =
                map (\<lambda>(j, did). (did, randomScore (rand (i * (length DIMENSION_IDS + 1) + j))))
                    (enumerate 0 DIMENSION_IDS),
              rp_objective_score =
                randomScore (rand (i * (length DIMENSION_IDS + 1) + length DIMENSION_IDS)) \<rparr>)
         (enumerate 0 PROBLEM_IDS)"

text \<open>
  The score of one ability: \<^verbatim>\<open>problems.map((p) => p.dimension_scores[did])\<close>, summed from
  the left and divided by the number of problems, rounded to two decimals. A missing key
  reads as \<^verbatim>\<open>undefined\<close> and makes the sum \<^verbatim>\<open>NaN\<close>, as does an empty problem list: that
  is the result \<^term>\<open>None\<close>.
\<close>

definition computeAbility :: "problem_in_report list \<Rightarrow> string \<Rightarrow> real option" where
  "computeAbility ps did =
     (case those (map (\<lambda>p. map_of (rp_dimension_scores p) did) ps) of
        None \<Rightarrow> None
      | Some scs \<Rightarrow>
          if length scs = 0 then None
          else Some (fdiv (Math_round
                             (fmul (fdiv (foldl (\<lambda>a b. fadd a b) 0 scs) (real (length scs))) 100))
                          100))"

text \<open>
  The constant \<^verbatim>\<open>abilities\<close> of \<^verbatim>\<open>generateReportJSON\<close>, one entry per configured
  dimension, from the random draws. The result \<^term>\<open>None\<close> stands for a \<^verbatim>\<open>NaN\<close> score.
  The rest of the report (identifiers, totals) is not needed here.
\<close>

definition generateAbilities :: "(nat \<Rightarrow> real) \<Rightarrow> ability_score list option" where
  "generateAbilities rand =
     (let ps = generateProblems rand in
      case those (map (computeAbility ps) DIMENSION_IDS) of
        None \<Rightarrow> None
      | Some scs \<Rightarrow>
          Some (map (\<lambda>(did, sc). \<lparr> dimension_id = did, score = sc \<rparr>) (zip DIMENSION_IDS scs)))"

subsection \<open>Compatibility check\<close>

text \<open>
  The schema module's \<^verbatim>\<open>checkCompatibility\<close> reads four things only: the problem ids of
  \<^verbatim>\<open>scores.problem_scores\<close>, the dimension ids of \<^verbatim>\<open>scores.ability_scores\<close>, and
  \<^verbatim>\<open>curve.problem_ids\<close> and \<^verbatim>\<open>curve.dimension_ids\<close>. Its \<^verbatim>\<open>JSONScores\<close> type has no
  prompt version hash. The two local arrays \<^verbatim>\<open>problemIdDifferences\<close> and
  \<^verbatim>\<open>dimensionIdDifferences\<close> are functions of their own here.
\<close>

text \<open>\<^verbatim>\<open>problemId.slice(0, -1)\<close>: all but the last character; the empty string stays empty.\<close>

definition extractBaseProblemId :: "string \<Rightarrow> string" where
  "extractBaseProblemId problemId = take (length problemId - 1) problemId"

text \<open>
  A JavaScript \<^verbatim>\<open>Set\<close> built from an array: the elements in insertion order, each kept at
  its first occurrence.
\<close>

definition Set_add :: "'a list \<Rightarrow> 'a \<Rightarrow> 'a list" where
  "Set_add s x = (if x \<in> set s then s else s @ [x])"

definition new_Set :: "'a list \<Rightarrow> 'a list" where
  "new_Set xs = foldl Set_add [] xs"

text \<open>\<^verbatim>\<open>options?.allowLanguageDifference\<close> read as a condition.\<close>

definition allowLanguage :: "compat_options option \<Rightarrow> bool" where
  "allowLanguage options =
     (case options of
        None \<Rightarrow> False
      | Some opts \<Rightarrow> (case allowLanguageDifference opts of None \<Rightarrow> False | Some b \<Rightarrow> b))"

definition curve_has_msg :: "string \<Rightarrow> string" where
  "curve_has_msg x = ''Curve has '' @ x @ '' but scores missing it''"

definition scores_has_msg :: "string \<Rightarrow> string" where
  "scores_has_msg x = ''Scores has '' @ x @ '' but curve missing it''"

text \<open>The test \<^verbatim>\<open>hasMatch\<close> of both problem loops: \<open>pid\<close> against the ids of the other side.\<close>

definition hasMatch :: "compat_options option \<Rightarrow> string \<Rightarrow> string list \<Rightarrow> bool" where
  "hasMatch options pid others =
     (let baseId = (if allowLanguage options then extractBaseProblemId pid else pid)
      in if allowLanguage options
         then list_ex (\<lambda>oid. extractBaseProblemId oid = baseId) others
         else pid \<in> set others)"

definition problemIdDifferences ::
    "string list \<Rightarrow> string list \<Rightarrow> compat_options option \<Rightarrow> string list" where
  "problemIdDifferences curveProblemIds scoreProblemIds options =
     map curve_has_msg
       (filter (\<lambda>pid. \<not> hasMatch options pid scoreProblemIds) curveProblemIds)
     @ map scores_has_msg
         (filter (\<lambda>pid. \<not> hasMatch options pid curveProblemIds) scoreProblemIds)"

definition dimensionIdDifferences :: "string list \<Rightarrow> string list \<Rightarrow> string list" where
  "dimensionIdDifferences curveDimensionIds scoreDimensionIds =
     map curve_has_msg (filter (\<lambda>did. did \<notin> set scoreDimensionIds) curveDimensionIds)
     @ map scores_has_msg (filter (\<lambda>did. did \<notin> set curveDimensionIds) scoreDimensionIds)"

definition checkCompatibility ::
    "curve \<Rightarrow> json_scores \<Rightarrow> compat_options option \<Rightarrow> compatibility_result" where
  "checkCompatibility cv ss options =
     (let scoreProblemIds = new_Set (map problem_id (problem_scores ss));
          curveProblemIds = new_Set (problem_ids cv);
          pdiffs = problemIdDifferences curveProblemIds scoreProblemIds options;
          reasons1 = (if length pdiffs > 0 then [] @ pdiffs else []);
          scoreDimensionIds = new_Set (map dimension_id (ability_scores ss));
          curveDimensionIds = new_Set (dimension_ids cv);
          ddiffs = dimensionIdDifferences curveDimensionIds scoreDimensionIds;
          reasons2 = (if length ddiffs > 0 then reasons1 @ ddiffs else reasons1)
      in if length reasons2 > 0 then Incompatible reasons2 else Compatible)"

subsection \<open>The specification's notions\<close>

text \<open>
  The notions of the specification, in the arithmetic of the program. The sum of a list
  is the last of its partial sums \<open>s\<^sub>0 = 0\<close>, \<open>s\<^bsub>k+1\<^esub> = s\<^sub>k + v\<^sub>k\<close>; the mean is the sum
  divided by \<open>N\<close>; the population standard deviation is the square root of the sum of the
  squared deviations from the mean divided by \<open>N\<close> (not by \<open>N - 1\<close>). A number is clamped to
  an interval, and rounded to three decimals by scaling with 1000, rounding to an integer
  and dividing by 1000. A score is a double of \<open>[0, 1]\<close>.
\<close>

fun partial_sum :: "real list \<Rightarrow> nat \<Rightarrow> real" where
  "partial_sum vs 0 = 0"
| "partial_sum vs (Suc k) = fadd (partial_sum vs k) (vs ! k)"

definition spec_mean :: "real list \<Rightarrow> real" where
  "spec_mean vs = fdiv (partial_sum vs (length vs)) (real (length vs))"

definition spec_population_stddev :: "real list \<Rightarrow> real" where
  "spec_population_stddev vs =
     Math_sqrt
       (fdiv (partial_sum (map (\<lambda>v. fmul (fsub v (spec_mean vs)) (fsub v (spec_mean vs))) vs)
                (length vs))
             (real (length vs)))"




text \<open>A threshold array is a triple \<open>[A, B, C]\<close> with \<open>A \<ge> B \<ge> C\<close>.\<close>

definition descending3 :: "real list \<Rightarrow> bool" where
  "descending3 ts = (case ts of [a, b, c] \<Rightarrow> b \<le> a \<and> c \<le> b | _ \<Rightarrow> False)"

text \<open>
  The key under which the check compares two problem ids: the id without its last
  character when the language option is set, the id itself otherwise.
\<close>

definition compareKey :: "compat_options option \<Rightarrow> string \<Rightarrow> string" where
  "compareKey options pid = (if allowLanguage options then extractBaseProblemId pid else pid)"

subsection \<open>Example inputs\<close>

text \<open>A curve over the problems 003400 and 003401 and the dimension discovery.\<close>

definition ex_curve :: curve where
  "ex_curve =
     \<lparr> curve_id = ''curve-1'',
       source_event_id = ''event_2024_01'',
       prompt_version_hash = ''abc1234def5678'',
       problem_ids = [''003400'', ''003401''],
       dimension_ids = [''discovery''],
       c_method = Standard_deviation [1, 0, -1],
       sample_size = 3,
       computed_at = ''2024-01-01T00:00:00.000Z'',
       c_totals =
         \<lparr> total_problem = \<lparr> thresholds = [fl (7 / 10), fl (5 / 10), fl (3 / 10)], grades = ABCD \<rparr>,
           total_ability = \<lparr> thresholds = [fl (7 / 10), fl (5 / 10), fl (3 / 10)], grades = ABCD \<rparr>,
           final_total = \<lparr> thresholds = [fl (7 / 10), fl (5 / 10), fl (3 / 10)], grades = ABCD \<rparr> \<rparr>,
       ability_curves =
         [\<lparr> ac_dimension_id = ''discovery'', ac_thresholds = [fl (9 / 10), fl (6 / 10), fl (3 / 10)],
            ac_grades = ABCD \<rparr>],
       problem_curves =
         [\<lparr> pc_problem_id = ''003400'', pc_thresholds = [fl (9 / 10), fl (7 / 10), fl (5 / 10)],
            pc_grades = ABCD \<rparr>,
          \<lparr> pc_problem_id = ''003401'', pc_thresholds = [fl (9 / 10), fl (7 / 10), fl (5 / 10)],
            pc_grades = ABCD \<rparr>] \<rparr>"

text \<open>Scores over the same problems and dimension.\<close>

definition ex_scores :: json_scores where
  "ex_scores =
     \<lparr> source_report_id = ''report-1'',
       event_id = ''event_2024_01'',
       participant_id = ''participant_001'',
       totals =
         \<lparr> total_problem_score = fl (6 / 10), total_ability_score = fl (5 / 10),
           final_total_score = fl (55 / 100) \<rparr>,
       ability_scores = [\<lparr> dimension_id = ''discovery'', score = fl (5 / 10) \<rparr>],
       problem_scores =
         [\<lparr> problem_id = ''003400'', objective_score = fl (8 / 10), dimension_scores = [] \<rparr>,
          \<lparr> problem_id = ''003401'', objective_score = fl (4 / 10), dimension_scores = [] \<rparr>] \<rparr>"

text \<open>Scores with a problem, 999999, for which \<^term>\<open>ex_curve\<close> has no thresholds.\<close>

definition ex_scores_unseen :: json_scores where
  "ex_scores_unseen =
     ex_scores\<lparr> problem_scores :=
       [\<lparr> problem_id = ''003400'', objective_score = fl (8 / 10), dimension_scores = [] \<rparr>,
        \<lparr> problem_id = ''999999'', objective_score = fl (65 / 100), dimension_scores = [] \<rparr>] \<rparr>"

text \<open>The problem sets \<open>{A, B}\<close> of a curve and \<open>{A, C}\<close> of scores.\<close>

definition ex_curve_AB :: curve where
  "ex_curve_AB = ex_curve\<lparr> problem_ids := [''A'', ''B''] \<rparr>"

definition ex_scores_AC :: json_scores where
  "ex_scores_AC =
     ex_scores\<lparr> problem_scores :=
       [\<lparr> problem_id = ''A'', objective_score = fl (8 / 10), dimension_scores = [] \<rparr>,
        \<lparr> problem_id = ''C'', objective_score = fl (4 / 10), dimension_scores = [] \<rparr>] \<rparr>"

text \<open>A curve over two Chinese problems and scores over their English variants.\<close>

definition ex_curve_zh :: curve where
  "ex_curve_zh = ex_curve\<lparr> problem_ids := [''003400'', ''005000''] \<rparr>"

definition ex_scores_en :: json_scores where
  "ex_scores_en =
     ex_scores\<lparr> problem_scores :=
       [\<lparr> problem_id = ''003401'', objective_score = fl (8 / 10), dimension_scores = [] \<rparr>,
        \<lparr> problem_id = ''005001'', objective_score = fl (4 / 10), dimension_scores = [] \<rparr>] \<rparr>"

definition lang_option :: "compat_options option" where
  "lang_option = Some \<lparr> allowLanguageDifference = Some True \<rparr>"

text \<open>
  A run of \<^verbatim>\<open>Math.random()\<close>: every draw is 0.75, except draws 24 and 30, the discovery
  scores of the fifth and sixth problem (010000 and 010001), which are 0.
\<close>

definition rand_example :: "nat \<Rightarrow> real" where
  "rand_example k = (if k = 24 \<or> k = 30 then 0 else 3 / 4)"

section \<open>Properties\<close>

subsection \<open>Rounding to the nearest double\<close>

lemma two_powr_powi: "(2::real) powr real_of_int k = 2 powi k"
  by (rule powr_real_of_int') simp_all

lemma expo_eq_iff: "0 < x \<Longrightarrow> expo x = e \<longleftrightarrow> 2 powi e \<le> x \<and> x < 2 powi (e + 1)"
  using floor_log_eq_powr_iff [of x 2 e] two_powr_powi [of e] two_powr_powi [of "e + 1"]
  by (simp add: expo_def)

lemma expo_bounds:
  assumes "0 < x"
  shows "2 powi expo x \<le> x" "x < 2 powi (expo x + 1)"
  using expo_eq_iff [OF assms, of "expo x"] by simp_all

lemma expo_mono: "0 < x \<Longrightarrow> x \<le> y \<Longrightarrow> expo x \<le> expo y"
  by (simp add: expo_def floor_mono)

lemma ulp_pos: "0 < ulp x"
  by (simp add: ulp_def)

lemma round_even_of_int: "round_even (of_int n) = n"
  by (simp add: round_even_def)

lemma round_even_cases: "round_even r = \<lfloor>r\<rfloor> \<or> round_even r = \<lfloor>r\<rfloor> + 1"
  by (simp add: round_even_def Let_def)

lemma round_even_mono:
  assumes "r \<le> s"
  shows "round_even r \<le> round_even s"
proof (cases "\<lfloor>r\<rfloor> = \<lfloor>s\<rfloor>")
  case True
  with assms show ?thesis by (auto simp: round_even_def Let_def)
next
  case False
  with assms have "\<lfloor>r\<rfloor> + 1 \<le> \<lfloor>s\<rfloor>" using floor_mono [OF assms] by linarith
  moreover have "round_even r \<le> \<lfloor>r\<rfloor> + 1" using round_even_cases [of r] by linarith
  moreover have "\<lfloor>s\<rfloor> \<le> round_even s" using round_even_cases [of s] by linarith
  ultimately show ?thesis by linarith
qed

lemma round_even_ge: "of_int n \<le> r \<Longrightarrow> n \<le> round_even r"
  using round_even_mono [of "of_int n" r] by (simp add: round_even_of_int)

lemma round_even_le: "r \<le> of_int n \<Longrightarrow> round_even r \<le> n"
  using round_even_mono [of r "of_int n"] by (simp add: round_even_of_int)

lemma fl_0: "fl 0 = 0"
  by (simp add: fl_def)

lemma expo_minus: "expo (- x) = expo x"
  by (simp add: expo_def)

lemma ulp_minus: "ulp (- x) = ulp x"
  by (simp add: ulp_def expo_minus)

lemma fl_minus: "fl (- x) = - fl x"
  by (simp add: fl_def ulp_minus sgn_minus)

lemma fl_pos: "0 < x \<Longrightarrow> fl x = of_int (round_even (x / ulp x)) * ulp x"
  by (simp add: fl_def)

lemma fl_nonneg: "0 \<le> x \<Longrightarrow> 0 \<le> fl x"
proof (cases "x = 0")
  case False
  assume "0 \<le> x"
  with False have "0 < x" by simp
  have "0 \<le> x / ulp x" using \<open>0 < x\<close> ulp_pos [of x] by simp
  then have "0 \<le> round_even (x / ulp x)" using round_even_ge [of 0] by simp
  then show ?thesis using ulp_pos [of x] by (simp add: fl_pos [OF \<open>0 < x\<close>])
qed (simp add: fl_0)

lemma powi_shift: "(2::real) ^ n * 2 powi (k - int n) = 2 powi k"
proof -
  have "2 powi k = (2::real) powi (int n + (k - int n))" by simp
  also have "\<dots> = 2 powi int n * 2 powi (k - int n)" by (rule power_int_add) simp
  finally show ?thesis by simp
qed

lemma ulp_53: "2 ^ 53 * ulp x = 2 powi (max (expo x) (- 1022) + 1)"
  using powi_shift [of 53 "max (expo x) (- 1022) + 1"] by (simp add: ulp_def)

lemma ulp_52: "2 ^ 52 * ulp x = 2 powi (max (expo x) (- 1022))"
  using powi_shift [of 52 "max (expo x) (- 1022)"] by (simp add: ulp_def)

text \<open>A positive number below the top of its binade has at most \<open>2^53\<close> units in the last place.\<close>

lemma units_le:
  assumes "0 < x"
  shows "x / ulp x \<le> of_int (2 ^ 53)"
proof -
  have "x < 2 powi (expo x + 1)" using expo_bounds [OF assms] by simp
  also have "\<dots> \<le> 2 powi (max (expo x) (- 1022) + 1)" by (intro power_int_increasing) simp_all
  also have "\<dots> = 2 ^ 53 * ulp x" by (simp only: ulp_53)
  finally show ?thesis using ulp_pos [of x] by (simp add: field_simps)
qed

lemma fl_pos_upper:
  assumes "0 < x"
  shows "fl x \<le> 2 powi (max (expo x) (- 1022) + 1)"
proof -
  have "round_even (x / ulp x) \<le> 2 ^ 53" using units_le [OF assms] by (rule round_even_le)
  then have "of_int (round_even (x / ulp x)) * ulp x \<le> 2 ^ 53 * ulp x"
    using ulp_pos [of x]
    by (intro mult_right_mono) (simp_all add: of_int_le_iff [symmetric] del: of_int_le_iff)
  also have "2 ^ 53 * ulp x = 2 powi (max (expo x) (- 1022) + 1)" by (simp only: ulp_53)
  finally show ?thesis by (simp add: fl_pos [OF assms])
qed

lemma fl_pos_lower:
  assumes "0 < x" "- 1022 \<le> expo x"
  shows "2 powi expo x \<le> fl x"
proof -
  have m: "max (expo x) (- 1022) = expo x" using assms(2) by simp
  have e: "2 ^ 52 * ulp x = 2 powi expo x" using ulp_52 [of x] by (simp only: m)
  then have "2 powi expo x = 2 ^ 52 * ulp x" by simp
  moreover have "2 powi expo x \<le> x" using expo_bounds [OF assms(1)] by simp
  ultimately have "of_int (2 ^ 52) \<le> x / ulp x" using ulp_pos [of x] by (simp add: field_simps)
  then have "2 ^ 52 \<le> round_even (x / ulp x)" by (rule round_even_ge)
  then have "2 ^ 52 * ulp x \<le> of_int (round_even (x / ulp x)) * ulp x"
    using ulp_pos [of x]
    by (intro mult_right_mono) (simp_all add: of_int_le_iff [symmetric] del: of_int_le_iff)
  then show ?thesis using e by (simp add: fl_pos [OF assms(1)])
qed

lemma fl_pos_mono:
  assumes "0 < x" "x \<le> y"
  shows "fl x \<le> fl y"
proof -
  have y: "0 < y" using assms by simp
  let ?Ex = "max (expo x) (- 1022)" and ?Ey = "max (expo y) (- 1022)"
  have le: "?Ex \<le> ?Ey" using expo_mono [OF assms] by simp
  show ?thesis
  proof (cases "?Ex = ?Ey")
    case True
    then have u: "ulp x = ulp y" by (simp add: ulp_def)
    have "x / ulp y \<le> y / ulp y" using assms ulp_pos [of y] by (simp add: divide_right_mono)
    then have "round_even (x / ulp y) \<le> round_even (y / ulp y)" by (rule round_even_mono)
    then show ?thesis using ulp_pos [of y]
      by (simp add: fl_pos [OF assms(1)] fl_pos [OF y] u)
  next
    case False
    with le have lt: "?Ex + 1 \<le> ?Ey" by simp
    then have ey: "- 1022 \<le> expo y" "?Ey = expo y" by (simp_all add: max_def split: if_splits)
    have "fl x \<le> 2 powi (?Ex + 1)" by (rule fl_pos_upper [OF assms(1)])
    also have "\<dots> \<le> 2 powi expo y" using lt ey by (intro power_int_increasing) simp_all
    also have "\<dots> \<le> fl y" by (rule fl_pos_lower [OF y ey(1)])
    finally show ?thesis .
  qed
qed

text \<open>Rounding is monotone.\<close>

lemma fl_mono:
  assumes "x \<le> y"
  shows "fl x \<le> fl y"
proof -
  consider "0 < x" | "x \<le> 0" "0 \<le> y" | "y < 0" by linarith
  then show ?thesis
  proof cases
    case 1
    then show ?thesis using assms by (rule fl_pos_mono)
  next
    case 2
    have "fl x \<le> 0" using fl_nonneg [of "- x"] 2(1) by (simp add: fl_minus)
    also have "0 \<le> fl y" using 2(2) by (rule fl_nonneg)
    finally show ?thesis .
  next
    case 3
    then have "0 < - y" "- y \<le> - x" using assms by simp_all
    then have "fl (- y) \<le> fl (- x)" by (rule fl_pos_mono)
    then show ?thesis by (simp add: fl_minus)
  qed
qed

lemma fl_of_int_ulp:
  assumes "0 < x" "x / ulp x = of_int n"
  shows "fl x = x"
proof -
  have "fl x = of_int n * ulp x" by (simp add: fl_pos [OF assms(1)] assms(2) round_even_of_int)
  also have "\<dots> = x" using assms(2) ulp_pos [of x] by (simp add: field_simps)
  finally show ?thesis .
qed

text \<open>A number \<open>m * 2^e\<close> with \<open>|m| \<le> 2^53\<close> and \<open>e \<ge> -1074\<close> is a double: rounding keeps it.\<close>

lemma fl_exact_pos:
  assumes m: "0 < m" "m \<le> 2 ^ 53" and e: "- 1074 \<le> e"
  shows "fl (of_int m * 2 powi e) = of_int m * 2 powi e"
proof -
  define x :: real where "x = of_int m * 2 powi e"
  have x: "0 < x" using m(1) by (simp add: x_def)
  define P where "P = max (expo x) (- 1022) - 52"
  have u: "ulp x = 2 powi P" by (simp add: ulp_def P_def)
  have "\<exists>n. x / ulp x = of_int n"
  proof (cases "P \<le> e")
    case True
    have "2 powi e = (2::real) powi (P + (e - P))" by simp
    also have "\<dots> = 2 powi P * 2 powi (e - P)" by (rule power_int_add) simp
    also have "2 powi (e - P) = (2::real) ^ nat (e - P)" using True by (simp add: power_int_def)
    finally have pe: "2 powi e = (2::real) powi P * 2 ^ nat (e - P)" .
    have "x / ulp x = x / 2 powi P" by (simp only: u)
    also have "\<dots> = of_int m * 2 powi e / 2 powi P" by (simp only: x_def)
    also have "\<dots> = of_int m * 2 ^ nat (e - P)" by (simp add: pe)
    also have "\<dots> = of_int (m * 2 ^ nat (e - P))" by simp
    finally show ?thesis by blast
  next
    case False
    then have E: "- 1022 < expo x" "P = expo x - 52" "e + 53 \<le> expo x"
      using e by (auto simp: P_def max_def split: if_splits)
    have "x \<le> 2 ^ 53 * 2 powi e"
      unfolding x_def using m(2)
      by (intro mult_right_mono) (simp_all add: of_int_le_iff [symmetric] del: of_int_le_iff)
    also have "\<dots> = 2 powi (e + 53)" using powi_shift [of 53 "e + 53"] by simp
    also have "\<dots> \<le> 2 powi expo x" using E(3) by (intro power_int_increasing) simp_all
    finally have "x \<le> 2 powi expo x" .
    with expo_bounds(1) [OF x] have "x = 2 powi expo x" by simp
    moreover have "2 ^ 52 * 2 powi P = (2::real) powi expo x"
      using powi_shift [of 52 "expo x"] by (simp add: E(2))
    ultimately have "x = 2 ^ 52 * ulp x" by (simp only: u)
    then have "x / ulp x = of_int (2 ^ 52)" using ulp_pos [of x] by (simp add: field_simps)
    then show ?thesis by blast
  qed
  then obtain n where "x / ulp x = of_int n" ..
  with x have "fl x = x" by (rule fl_of_int_ulp)
  then show ?thesis by (simp add: x_def)
qed

lemma fl_exact:
  assumes "\<bar>m\<bar> \<le> 2 ^ 53" "- 1074 \<le> e"
  shows "fl (of_int m * 2 powi e) = of_int m * 2 powi e"
proof -
  consider "0 < m" | "m = 0" | "m < 0" by linarith
  then show ?thesis
  proof cases
    case 1
    then show ?thesis using assms by (intro fl_exact_pos) simp_all
  next
    case 2
    then show ?thesis by (simp add: fl_0)
  next
    case 3
    then have "fl (of_int (- m) * 2 powi e) = of_int (- m) * 2 powi e"
      using assms by (intro fl_exact_pos) simp_all
    then show ?thesis using fl_minus [of "of_int m * 2 powi e"] by simp
  qed
qed

lemma fl_of_int: "\<bar>n\<bar> \<le> 2 ^ 53 \<Longrightarrow> fl (of_int n) = of_int n"
  using fl_exact [of n 0] by simp

lemma fl_dyadic:
  assumes "\<bar>m\<bar> \<le> 2 ^ 53" "k \<le> 1074"
  shows "fl (of_int m / 2 ^ k) = of_int m / 2 ^ k"
proof -
  have "(2::real) powi (- int k) = 1 / 2 ^ k"
    by (simp add: power_int_minus field_simps)
  then show ?thesis using fl_exact [of m "- int k"] assms by simp
qed

text \<open>The result of a rounding is a double.\<close>

lemma fl_fl: "fl (fl x) = fl x"
proof -
  have pos: "fl (fl x) = fl x" if "0 < x" for x
  proof -
    define n where "n = round_even (x / ulp x)"
    define E where "E = max (expo x) (- 1022)"
    have "n \<le> 2 ^ 53" unfolding n_def using units_le [OF that] by (rule round_even_le)
    moreover have "0 \<le> x / ulp x" using that ulp_pos [of x] by simp
    then have "0 \<le> n" unfolding n_def using round_even_ge [of 0] by simp
    ultimately have "\<bar>n\<bar> \<le> 2 ^ 53" by simp
    moreover have "- 1074 \<le> E - 52" by (simp add: E_def)
    ultimately have "fl (of_int n * 2 powi (E - 52)) = of_int n * 2 powi (E - 52)"
      by (rule fl_exact)
    moreover have "fl x = of_int n * 2 powi (E - 52)"
      by (simp add: fl_pos [OF that] n_def ulp_def E_def)
    ultimately show ?thesis by simp
  qed
  consider "0 < x" | "x = 0" | "x < 0" by linarith
  then show ?thesis
  proof cases
    case 1
    then show ?thesis by (rule pos)
  next
    case 2
    then show ?thesis by (simp add: fl_0)
  next
    case 3
    then have "fl (fl (- x)) = fl (- x)" by (intro pos) simp
    then show ?thesis by (simp add: fl_minus)
  qed
qed



lemma fl_le_dyadic: "x \<le> of_int m / 2 ^ k \<Longrightarrow> \<bar>m\<bar> \<le> 2 ^ 53 \<Longrightarrow> k \<le> 1074 \<Longrightarrow> fl x \<le> of_int m / 2 ^ k"
  using fl_mono [of x "of_int m / 2 ^ k"] by (simp add: fl_dyadic)

lemma fl_ge_dyadic: "of_int m / 2 ^ k \<le> x \<Longrightarrow> \<bar>m\<bar> \<le> 2 ^ 53 \<Longrightarrow> k \<le> 1074 \<Longrightarrow> of_int m / 2 ^ k \<le> fl x"
  using fl_mono [of "of_int m / 2 ^ k" x] by (simp add: fl_dyadic)

subsection \<open>Evaluating a rounding\<close>

lemma round_even_eqI:
  assumes "of_int n - 1 / 2 < r" "r < of_int n + 1 / 2"
  shows "round_even r = n"
proof (cases "of_int n \<le> r")
  case True
  with assms have "\<lfloor>r\<rfloor> = n" by (simp add: floor_eq_iff)
  with assms show ?thesis by (simp add: round_even_def)
next
  case False
  with assms have "\<lfloor>r\<rfloor> = n - 1" by (simp add: floor_eq_iff)
  with assms show ?thesis by (simp add: round_even_def)
qed

lemma round_even_half: "round_even (of_int n + 1 / 2) = (if even n then n else n + 1)"
proof -
  have "\<lfloor>of_int n + 1 / 2 :: real\<rfloor> = n" by (simp add: floor_eq_iff)
  then show ?thesis by (simp add: round_even_def)
qed

text \<open>
  A number \<open>x\<close> with \<open>2^52 \<le> x * 2^k < 2^53\<close> is rounded in units of \<open>2^-k\<close>: to \<open>n / 2^k\<close>
  when \<open>x * 2^k\<close> is less than half a unit away from \<open>n\<close>, and to the even neighbour when
  it is half-way between \<open>n\<close> and \<open>n + 1\<close>.
\<close>

lemma fl_scaled:
  assumes "2 ^ 52 \<le> x * 2 ^ k" "x * 2 ^ k < 2 ^ 53" "k \<le> 1074"
  shows "fl x = of_int (round_even (x * 2 ^ k)) / 2 ^ k"
proof -
  have p: "(2::real) powi (- int k) = 1 / 2 ^ k" by (simp add: power_int_minus field_simps)
  have "0 < x * 2 ^ k" using assms(1) by (smt (verit) zero_less_power)
  then have x: "0 < x" by (simp add: zero_less_mult_iff)
  have "2 ^ 52 * 2 powi (52 - int k - int 52) = (2::real) powi (52 - int k)"
    by (rule powi_shift)
  then have a: "(2::real) powi (52 - int k) = 2 ^ 52 / 2 ^ k" by (simp add: p)
  have "2 ^ 53 * 2 powi (52 - int k + 1 - int 53) = (2::real) powi (52 - int k + 1)"
    by (rule powi_shift)
  then have b: "(2::real) powi (52 - int k + 1) = 2 ^ 53 / 2 ^ k" by (simp add: p)
  have lo: "2 ^ 52 / 2 ^ k \<le> x" using assms(1) by (simp add: field_simps)
  have hi: "x < 2 ^ 53 / 2 ^ k" using assms(2) by (simp add: field_simps)
  have "2 powi (52 - int k) \<le> x \<and> x < 2 powi (52 - int k + 1)"
    using lo hi by (simp only: a b)
  then have e: "expo x = 52 - int k" by (simp only: expo_eq_iff [OF x])
  have u: "ulp x = 1 / 2 ^ k" using assms(3) by (simp add: ulp_def e p)
  show ?thesis by (simp add: fl_pos [OF x] u)
qed

lemma fl_eval:
  assumes "2 ^ 52 \<le> x * 2 ^ k" "x * 2 ^ k < 2 ^ 53" "k \<le> 1074"
    and "of_int n - 1 / 2 < x * 2 ^ k" "x * 2 ^ k < of_int n + 1 / 2"
  shows "fl x = of_int n / 2 ^ k"
  by (simp only: fl_scaled [OF assms(1-3)] round_even_eqI [OF assms(4,5)])

lemma fl_eval_tie:
  assumes "2 ^ 52 \<le> x * 2 ^ k" "x * 2 ^ k < 2 ^ 53" "k \<le> 1074"
    and "x * 2 ^ k = of_int n + 1 / 2"
  shows "fl x = of_int (if even n then n else n + 1) / 2 ^ k"
  by (simp only: fl_scaled [OF assms(1-3)] assms(4) round_even_half)

text \<open>The same for a correctly rounded square root.\<close>

lemma fl_sqrt_eval:
  assumes "2 ^ 52 < n" "n < 2 ^ 53" "k \<le> 1074"
    and "(of_int n - 1 / 2)\<^sup>2 < v * 4 ^ k" "v * 4 ^ k < (of_int n + 1 / 2)\<^sup>2"
  shows "fl (sqrt v) = of_int n / 2 ^ k"
proof -
  have "2 ^ 52 + 1 \<le> n" "n + 1 \<le> 2 ^ 53" using assms(1,2) by simp_all
  then have "(of_int (2 ^ 52 + 1) :: real) \<le> of_int n" "(of_int (n + 1) :: real) \<le> of_int (2 ^ 53)"
    by (simp_all only: of_int_le_iff)
  then have n: "(2::real) ^ 52 + 1 \<le> of_int n" "of_int n + 1 \<le> (2::real) ^ 53"
    by simp_all
  have "(4::real) ^ k = (2 ^ k)\<^sup>2"
    by (simp add: power2_eq_square power_mult_distrib [symmetric])
  then have "sqrt (4 ^ k) = (2::real) ^ k" by simp
  then have s: "sqrt v * 2 ^ k = sqrt (v * 4 ^ k)" by (simp add: real_sqrt_mult)
  have lo: "of_int n - 1 / 2 < sqrt (v * 4 ^ k)"
    using assms(4) by (rule real_less_rsqrt)
  have hi: "sqrt (v * 4 ^ k) < of_int n + 1 / 2"
    using assms(5) n by (intro real_less_lsqrt) simp_all
  show ?thesis
    using lo hi n by (intro fl_eval assms(3)) (simp_all add: s)
qed

subsection \<open>Sums, rounding and clamping\<close>

lemma partial_sum_append: "k \<le> length xs \<Longrightarrow> partial_sum (xs @ ys) k = partial_sum xs k"
  by (induction k) (simp_all add: nth_append)

lemma foldl_fadd_partial_sum: "foldl (\<lambda>a b. fadd a b) 0 vs = partial_sum vs (length vs)"
  by (induction vs rule: rev_induct) (simp_all add: partial_sum_append)

lemma foldl_fadd_map: "foldl (\<lambda>s v. fadd s (g v)) a vs = foldl (\<lambda>a b. fadd a b) a (map g vs)"
  by (induction vs arbitrary: a) simp_all

lemma foldl_sq_partial_sum:
  "foldl (\<lambda>sum v. fadd sum (Math_pow_2 (fsub v m))) 0 vs =
     partial_sum (map (\<lambda>v. fmul (fsub v m) (fsub v m)) vs) (length vs)"
proof -
  have "foldl (\<lambda>sum v. fadd sum (Math_pow_2 (fsub v m))) 0 vs =
          foldl (\<lambda>a b. fadd a b) 0 (map (\<lambda>v. Math_pow_2 (fsub v m)) vs)"
    by (rule foldl_fadd_map)
  also have "\<dots> = partial_sum (map (\<lambda>v. Math_pow_2 (fsub v m)) vs)
                      (length (map (\<lambda>v. Math_pow_2 (fsub v m)) vs))"
    by (rule foldl_fadd_partial_sum)
  finally show ?thesis by (simp add: Math_pow_2_def fmul_def)
qed

lemma foldl_sq_nonneg:
  "0 \<le> a \<Longrightarrow> 0 \<le> foldl (\<lambda>sum v. fadd sum (Math_pow_2 (fsub v m))) a vs"
proof (induction vs arbitrary: a)
  case Nil
  then show ?case by simp
next
  case (Cons v vs)
  have "0 \<le> Math_pow_2 (fsub v m)" by (simp add: Math_pow_2_def fl_nonneg)
  with Cons.prems have "0 \<le> fadd a (Math_pow_2 (fsub v m))" by (simp add: fadd_def fl_nonneg)
  then show ?case using Cons.IH by simp
qed



lemma Math_round_mono: "x \<le> y \<Longrightarrow> Math_round x \<le> Math_round y"
  by (simp add: Math_round_def floor_mono)

lemma clamp_mono: "x \<le> y \<Longrightarrow> clamp x \<le> clamp y"
  by (simp add: clamp_def max_def min_def)


lemma round3_clamp_mono:
  assumes "x \<le> y"
  shows "fdiv (Math_round (fmul (clamp x) 1000)) 1000 \<le> fdiv (Math_round (fmul (clamp y) 1000)) 1000"
proof -
  have "clamp x * 1000 \<le> clamp y * 1000" using clamp_mono [OF assms] by simp
  then have "fmul (clamp x) 1000 \<le> fmul (clamp y) 1000" unfolding fmul_def by (rule fl_mono)
  then have "Math_round (fmul (clamp x) 1000) \<le> Math_round (fmul (clamp y) 1000)"
    by (rule Math_round_mono)
  then have "Math_round (fmul (clamp x) 1000) / 1000 \<le> Math_round (fmul (clamp y) 1000) / 1000"
    by simp
  then show ?thesis unfolding fdiv_def by (rule fl_mono)
qed


subsection \<open>The standard-deviation thresholds\<close>

lemma computeStdDevThresholds_eq:
  assumes "vals \<noteq> []"
  shows "computeStdDevThresholds vals =
     [fdiv (Math_round (fmul (clamp (fadd (spec_mean vals) (spec_population_stddev vals))) 1000)) 1000,
      fdiv (Math_round (fmul (clamp (spec_mean vals)) 1000)) 1000,
      fdiv (Math_round (fmul (clamp (fsub (spec_mean vals) (spec_population_stddev vals))) 1000)) 1000]"
  using assms
  by (simp add: computeStdDevThresholds_def Let_def foldl_fadd_partial_sum foldl_sq_partial_sum
      spec_mean_def spec_population_stddev_def)

lemma computeStdDevThresholds_descending: "descending3 (computeStdDevThresholds vals)"
proof (cases "vals = []")
  case True
  have "fl (5 / 10) \<le> fl (8 / 10)" "fl (2 / 10) \<le> fl (5 / 10)" by (intro fl_mono; simp)+
  with True show ?thesis by (simp add: computeStdDevThresholds_def descending3_def)
next
  case False
  define m where "m = fdiv (foldl (\<lambda>a b. fadd a b) 0 vals) (real (length vals))"
  define var where
    "var = fdiv (foldl (\<lambda>sum v. fadd sum (Math_pow_2 (fsub v m))) 0 vals) (real (length vals))"
  define sd where "sd = Math_sqrt var"
  have "0 \<le> foldl (\<lambda>sum v. fadd sum (Math_pow_2 (fsub v m))) 0 vals"
    by (rule foldl_sq_nonneg) simp
  then have "0 \<le> var" unfolding var_def fdiv_def by (intro fl_nonneg) simp
  then have "0 \<le> sd" unfolding sd_def Math_sqrt_def by (intro fl_nonneg) simp
  have mm: "fl m = m" unfolding m_def fdiv_def by (rule fl_fl)
  have "fl m \<le> fl (m + sd)" "fl (m - sd) \<le> fl m" using \<open>0 \<le> sd\<close> by (intro fl_mono; simp)+
  then have "m \<le> fadd m sd" "fsub m sd \<le> m" by (simp_all add: fadd_def fsub_def mm)
  then have
    "fdiv (Math_round (fmul (clamp m) 1000)) 1000 \<le> fdiv (Math_round (fmul (clamp (fadd m sd)) 1000)) 1000"
    "fdiv (Math_round (fmul (clamp (fsub m sd)) 1000)) 1000 \<le> fdiv (Math_round (fmul (clamp m) 1000)) 1000"
    by (simp_all only: round3_clamp_mono)
  with False show ?thesis
    by (simp add: computeStdDevThresholds_def Let_def descending3_def m_def var_def sd_def)
qed

subsection \<open>Scores never leave the range of the doubles\<close>










text \<open>
  A run in which a rounding decides a threshold. The scores are the doubles nearest 0.02
  (three times) and 0.11. The program's sum of the four is 0.16999999999999998 and its mean
  0.042499999999999996, so the middle threshold is 0.042; the mean of the four decimal
  numbers is 0.0425, which would give 0.043. Every rounding of the run is evaluated: the
  literals, the partial sums, the squared deviations, the square root and the products by
  1000.
\<close>

lemma computeStdDevThresholds_rounded_mean_example:
  "computeStdDevThresholds [fl (2 / 100), fl (2 / 100), fl (2 / 100), fl (11 / 100)] =
     [fl (81 / 1000), fl (42 / 1000), fl (4 / 1000)]"
proof -
  have e0: "fl (1 / 50) = 5764607523034235 / 288230376151711744"
    using fl_eval [of "1 / 50" 58 5764607523034235] by simp
  have e1: "fl (11 / 100) = 7926335344172073 / 72057594037927936"
    using fl_eval [of "11 / 100" 56 7926335344172073] by simp
  have e2: "fl (5764607523034235 / 288230376151711744) = 5764607523034235 / 288230376151711744"
    using fl_eval [of "5764607523034235 / 288230376151711744" 58 5764607523034235] by simp
  have e3: "fl (5764607523034235 / 144115188075855872) = 5764607523034235 / 144115188075855872"
    using fl_eval [of "5764607523034235 / 144115188075855872" 57 5764607523034235] by simp
  have e4: "fl (17293822569102705 / 288230376151711744) = 1080863910568919 / 18014398509481984"
    using fl_eval_tie [of "17293822569102705 / 288230376151711744" 57 8646911284551352] by simp
  have e5: "fl (12249790986447749 / 72057594037927936) = 3062447746611937 / 18014398509481984"
    using fl_eval_tie [of "12249790986447749 / 72057594037927936" 55 6124895493223874] by simp
  have e6: "fl (3062447746611937 / 72057594037927936) = 3062447746611937 / 72057594037927936"
    using fl_eval [of "3062447746611937 / 72057594037927936" 57 6124895493223874] by simp
  have e7: "fl (6485183463413513 / 288230376151711744) = 6485183463413513 / 288230376151711744"
    using fl_eval [of "6485183463413513 / 288230376151711744" 58 6485183463413513] by simp
  have e8: "fl (42057604554132087707842031001169 / 83076749736557242056487941267521536) =
      36479156981701 / 72057594037927936"
    using fl_eval [of "42057604554132087707842031001169 / 83076749736557242056487941267521536" 63 4669332093657728]
    by simp
  have e9: "fl (36479156981701 / 72057594037927936) = 36479156981701 / 72057594037927936"
    using fl_eval [of "36479156981701 / 72057594037927936" 63 4669332093657728] by simp
  have e10: "fl (36479156981701 / 36028797018963968) = 36479156981701 / 36028797018963968"
    using fl_eval [of "36479156981701 / 36028797018963968" 62 4669332093657728] by simp
  have e11: "fl (109437470945103 / 72057594037927936) = 109437470945103 / 72057594037927936"
    using fl_eval [of "109437470945103 / 72057594037927936" 62 7003998140486592] by simp
  have e12: "fl (607985949695017 / 9007199254740992) = 607985949695017 / 9007199254740992"
    using fl_eval [of "607985949695017 / 9007199254740992" 56 4863887597560136] by simp
  have e13: "fl (369646915026551742115314630289 / 81129638414606681695789005144064) =
      5252998605364947 / 1152921504606846976"
    using fl_eval [of "369646915026551742115314630289 / 81129638414606681695789005144064" 60 5252998605364947]
    by simp
  have e14: "fl (7003998140486595 / 1152921504606846976) = 7003998140486595 / 1152921504606846976"
    using fl_eval [of "7003998140486595 / 1152921504606846976" 60 7003998140486595] by simp
  have e15: "fl (7003998140486595 / 4611686018427387904) = 7003998140486595 / 4611686018427387904"
    using fl_eval [of "7003998140486595 / 4611686018427387904" 62 7003998140486595] by simp
  have e16: "fl (11741229120742727 / 144115188075855872) = 1467653640092841 / 18014398509481984"
    using fl_eval_tie [of "11741229120742727 / 144115188075855872" 56 5870614560371363] by simp
  have e17: "fl (508561865705021 / 144115188075855872) = 508561865705021 / 144115188075855872"
    using fl_eval [of "508561865705021 / 144115188075855872" 61 8136989851280336] by simp
  have e18: "fl (183456705011605125 / 2251799813685248) = 1433255507903165 / 17592186044416"
    using fl_eval [of "183456705011605125 / 2251799813685248" 46 5733022031612660] by simp
  have e19: "fl (382805968326492125 / 9007199254740992) = 5981343255101439 / 140737488355328"
    using fl_eval [of "382805968326492125 / 9007199254740992" 47 5981343255101439] by simp
  have e20: "fl (63570233213127625 / 18014398509481984) = 7946279151640953 / 2251799813685248"
    using fl_eval [of "63570233213127625 / 18014398509481984" 51 7946279151640953] by simp
  note e = e0 e1 e2 e3 e4 e5 e6 e7 e8 e9 e10 e11 e12 e13 e14 e15 e16 e17 e18 e19 e20
  have m: "spec_mean [fl (2 / 100), fl (2 / 100), fl (2 / 100), fl (11 / 100)] =
      3062447746611937 / 72057594037927936"
    by (simp add: spec_mean_def numeral_eq_Suc fadd_def fdiv_def e)
  have s: "spec_population_stddev [fl (2 / 100), fl (2 / 100), fl (2 / 100), fl (11 / 100)] =
      Math_sqrt (7003998140486595 / 4611686018427387904)"
    unfolding spec_population_stddev_def m
    by (simp add: numeral_eq_Suc fadd_def fsub_def fmul_def fdiv_def fl_minus e)
  have sd: "Math_sqrt (7003998140486595 / 4611686018427387904) =
      5616333627518853 / 144115188075855872"
    unfolding Math_sqrt_def
    using fl_sqrt_eval [of 5616333627518853 57 "7003998140486595 / 4611686018427387904"]
    by (simp add: power2_eq_square)
  have A: "fdiv (Math_round (fmul (clamp (fadd (3062447746611937 / 72057594037927936) (5616333627518853 / 144115188075855872))) 1000)) 1000 =
      fl (81 / 1000)"
    by (simp add: fadd_def fsub_def fmul_def fdiv_def clamp_def Math_round_def e)
  have B: "fdiv (Math_round (fmul (clamp (3062447746611937 / 72057594037927936)) 1000)) 1000 =
      fl (42 / 1000)"
    by (simp add: fadd_def fsub_def fmul_def fdiv_def clamp_def Math_round_def e)
  have C: "fdiv (Math_round (fmul (clamp (fsub (3062447746611937 / 72057594037927936) (5616333627518853 / 144115188075855872))) 1000)) 1000 =
      fl (4 / 1000)"
    by (simp add: fadd_def fsub_def fmul_def fdiv_def clamp_def Math_round_def e)
  have ne: "[fl (2 / 100), fl (2 / 100), fl (2 / 100), fl (11 / 100)] \<noteq> []" by simp
  show ?thesis by (simp only: computeStdDevThresholds_eq [OF ne] m s sd A B C)
qed



text \<open>
  Claim C5. Whatever the pool, every threshold array of the computed curve is a triple
  \<open>[A, B, C]\<close> with \<open>A \<ge> B \<ge> C\<close>: the three totals, the entry of every dimension and the
  entry of every problem. The curve has one entry per configured dimension and problem.
\<close>

theorem computeCurve_thresholds_descending:
  "descending3 (thresholds (total_problem (c_totals (computeCurve pool uuid now))))
   \<and> descending3 (thresholds (total_ability (c_totals (computeCurve pool uuid now))))
   \<and> descending3 (thresholds (final_total (c_totals (computeCurve pool uuid now))))
   \<and> map ac_dimension_id (ability_curves (computeCurve pool uuid now)) = DIMENSION_IDS
   \<and> list_all (\<lambda>c. descending3 (ac_thresholds c)) (ability_curves (computeCurve pool uuid now))
   \<and> map pc_problem_id (problem_curves (computeCurve pool uuid now)) = PROBLEM_IDS
   \<and> list_all (\<lambda>c. descending3 (pc_thresholds c)) (problem_curves (computeCurve pool uuid now))"
  by (simp add: computeCurve_def Let_def abilityThresholds_def problemThresholds_def
      computeStdDevThresholds_descending list_all_iff o_def)

subsection \<open>Grade lookup and curve application\<close>

text \<open>
  Claim C2. On a threshold triple \<open>[A, B, C]\<close> the grade lookup is the rule of the four
  tiers, each bound inclusive at its lower edge: a score at or above \<open>A\<close> is graded A,
  otherwise one at or above \<open>B\<close> is graded B, otherwise one at or above \<open>C\<close> is graded C,
  and any other score is graded D. The lookup is a function, so every score (inside
  \<open>[0, 1]\<close> or not) gets exactly one letter.
\<close>

theorem getGrade_rule:
  "getGrade s [a, b, c] =
     (if a \<le> s then GradeA else if b \<le> s then GradeB else if c \<le> s then GradeC else GradeD)
   \<and> (\<exists>!g. getGrade s [a, b, c] = g)
   \<and> getGrade a [a, b, c] = GradeA"
  by (simp add: getGrade_def js_ge_def js_index_def)

text \<open>
  Claim C3 says that a scored value without a matching threshold entry makes
  \<^verbatim>\<open>applyCurve\<close> raise. The function has no failing path: the problem 999999 of
  \<^term>\<open>ex_scores_unseen\<close> has no entry among the problem curves of \<^term>\<open>ex_curve\<close>, and
  its score 0.65 is graded B against the stand-in thresholds 0.8, 0.6, 0.4.
\<close>

theorem applyCurve_unseen_problem_fallback:
  "find (\<lambda>c. pc_problem_id c = ''999999'') (problem_curves ex_curve) = None
   \<and> problem_grades (applyCurve ex_scores_unseen ex_curve now) =
       [\<lparr> pg_problem_id = ''003400'', pg_grade = GradeB \<rparr>,
        \<lparr> pg_problem_id = ''999999'', pg_grade = GradeB \<rparr>]"
proof -
  have "fl (8 / 10) \<le> 13 / 16" "7 / 8 \<le> fl (9 / 10)" "fl (65 / 100) \<le> 3 / 4" "25 / 32 \<le> fl (8 / 10)"
    using fl_le_dyadic [of "8 / 10" 13 4] fl_ge_dyadic [of 7 3 "9 / 10"]
      fl_le_dyadic [of "65 / 100" 3 2] fl_ge_dyadic [of 25 5 "8 / 10"]
    by simp_all
  then have lt: "\<not> fl (9 / 10) \<le> fl (8 / 10)" "\<not> fl (8 / 10) \<le> fl (65 / 100)" by linarith+
  have le: "fl (7 / 10) \<le> fl (8 / 10)" "fl (6 / 10) \<le> fl (65 / 100)" by (intro fl_mono; simp)+
  show ?thesis
    using lt le
    by (simp add: applyCurve_def ex_scores_unseen_def ex_scores_def ex_curve_def getGrade_def
        js_ge_def js_index_def fallbackThresholds_def Let_def)
qed

text \<open>
  Claim C9 says that two applications of a curve to the same scores give identical
  results. The result records the time of the call, so two calls a millisecond apart
  differ.
\<close>

theorem applyCurve_timestamp_counterexample:
  "applyCurve ex_scores ex_curve ''2024-01-01T00:00:00.000Z''
     \<noteq> applyCurve ex_scores ex_curve ''2024-01-01T00:00:00.001Z''"
  by (simp add: applyCurve_def Let_def)

text \<open>
  Claim C9, amended. Two applications of the same curve to the same scores agree in
  every field but \<^verbatim>\<open>computed_at\<close>, which holds the time of each call: all the grades
  and both references are identical.
\<close>

theorem applyCurve_equal_up_to_timestamp:
  "applyCurve ss cv t1 = (applyCurve ss cv t2)\<lparr> clg_computed_at := t1 \<rparr>"
  by (simp add: applyCurve_def Let_def)

subsection \<open>Score pools\<close>

text \<open>
  Claim C10 says that \<^verbatim>\<open>createScorePool\<close> rejects members that do not share one
  problem set. The two members below have the problem sets \<open>{003400, 003401}\<close> and
  \<open>{A, C}\<close>, neither of them the configured one, and the pool is built.
\<close>

theorem createScorePool_inconsistent_accepted:
  "set (map problem_id (problem_scores ex_scores))
     \<noteq> set (map problem_id (problem_scores ex_scores_AC))
   \<and> createScorePool [ex_scores, ex_scores_AC] =
       Inr \<lparr> sp_event_id = ''event_2024_01'',
             sp_prompt_version_hash = PROMPT_VERSION_HASH,
             sp_problem_ids = PROBLEM_IDS,
             sp_dimension_ids = DIMENSION_IDS,
             scores = [ex_scores, ex_scores_AC] \<rparr>"
  by (auto simp: createScorePool_def ex_scores_def ex_scores_AC_def)

text \<open>
  Claim C10, amended. \<^verbatim>\<open>createScorePool\<close> rejects the empty list. A non-empty list
  whose members all carry the event id of the first one is accepted whatever the problem
  sets and dimensions of its members are: they are not compared. The pool holds the
  given scores unchanged, that event id, and the module's configured problem ids,
  dimension ids and prompt hash.
\<close>

theorem createScorePool_ignores_problem_sets:
  assumes "list_all (\<lambda>s. event_id s = event_id s0) rest"
  shows "createScorePool [] = Inl (Error ''Cannot create score pool from empty scores array'')
       \<and> createScorePool (s0 # rest) =
           Inr \<lparr> sp_event_id = event_id s0,
                 sp_prompt_version_hash = PROMPT_VERSION_HASH,
                 sp_problem_ids = PROBLEM_IDS,
                 sp_dimension_ids = DIMENSION_IDS,
                 scores = s0 # rest \<rparr>"
  by (simp add: createScorePool_def)

text \<open>
  Two members of one event, with the problem sets \<open>{A, C}\<close> and \<open>{003400, 999999}\<close>.
\<close>

theorem createScorePool_ignores_problem_sets_witness:
  "list_all (\<lambda>s. event_id s = event_id ex_scores_AC) [ex_scores_unseen]
   \<and> map problem_id (problem_scores ex_scores_AC) = [''A'', ''C'']
   \<and> map problem_id (problem_scores ex_scores_unseen) = [''003400'', ''999999'']
   \<and> createScorePool [ex_scores_AC, ex_scores_unseen] =
       Inr \<lparr> sp_event_id = ''event_2024_01'',
             sp_prompt_version_hash = PROMPT_VERSION_HASH,
             sp_problem_ids = PROBLEM_IDS,
             sp_dimension_ids = DIMENSION_IDS,
             scores = [ex_scores_AC, ex_scores_unseen] \<rparr>"
proof -
  have h: "list_all (\<lambda>s. event_id s = event_id ex_scores_AC) [ex_scores_unseen]"
    by (simp add: ex_scores_AC_def ex_scores_unseen_def)
  have e: "event_id ex_scores_AC = ''event_2024_01''"
    by (simp add: ex_scores_AC_def ex_scores_def)
  from createScorePool_ignores_problem_sets [OF h] h e show ?thesis
    by (simp add: ex_scores_AC_def ex_scores_unseen_def)
qed

subsection \<open>Ability scores of a generated report\<close>

lemma generateProblems_eval:
  "generateProblems rand =
     map (\<lambda>i. \<lparr> rp_problem_id = PROBLEM_IDS ! i,
                rp_dimension_scores =
                  [(''discovery'', randomScore (rand (i * 6))),
                   (''representation'', randomScore (rand (i * 6 + 1))),
                   (''iterative-refinement'', randomScore (rand (i * 6 + 2))),
                   (''exploratory'', randomScore (rand (i * 6 + 3))),
                   (''self-verification'', randomScore (rand (i * 6 + 4)))],
                rp_objective_score = randomScore (rand (i * 6 + 5)) \<rparr>)
         [0, 1, 2, 3, 4, 5]"
  by (simp add: generateProblems_def PROBLEM_IDS_def DIMENSION_IDS_def enumerate_eq_zip upt_rec
      numeral_eq_Suc)

lemma randomScore_0: "randomScore 0 = 0"
  by (simp add: randomScore_def fmul_def fdiv_def Math_round_def fl_0)

lemma randomScore_3_4: "randomScore (3 / 4) = 3 / 4"
  using fl_of_int [of 75] fl_dyadic [of 3 2]
  by (simp add: randomScore_def fmul_def fdiv_def Math_round_def)

text \<open>
  The draw 0.235 is the double just below that number; its product by 100 is rounded to the
  double 23.5, which \<^verbatim>\<open>Math.round\<close> takes to 24: the score is 0.24.
\<close>

lemma randomScore_rounded_product_example: "randomScore (fl (235 / 1000)) = fl (24 / 100)"
proof -
  have e0: "fl (47 / 200) = 2116691824864133 / 9007199254740992"
    using fl_eval [of "47 / 200" 55 8466767299456532] by simp
  have e1: "fl (52917295621603325 / 2251799813685248) = 47 / 2"
    using fl_eval [of "52917295621603325 / 2251799813685248" 48 6614661952700416] by simp
  show ?thesis by (simp add: randomScore_def fmul_def fdiv_def Math_round_def e0 e1)
qed

text \<open>
  Six problems that score 0.21, 0, 0, 0, 0 and 0 on a dimension: the program's mean is
  0.034999999999999996 and its product by 100 is 3.4999999999999996, so the ability score is
  0.03.
\<close>

lemma computeAbility_rounded_mean_example:
  "computeAbility
     (map (\<lambda>x. \<lparr> rp_problem_id = ''p'', rp_dimension_scores = [(''discovery'', x)],
                 rp_objective_score = 0 \<rparr>)
        [fl (21 / 100), 0, 0, 0, 0, 0])
     ''discovery'' = Some (fl (3 / 100))"
proof -
  have e0: "fl (21 / 100) = 7566047373982433 / 36028797018963968"
    using fl_eval [of "21 / 100" 55 7566047373982433] by simp
  have e1: "fl (7566047373982433 / 36028797018963968) = 7566047373982433 / 36028797018963968"
    using fl_eval [of "7566047373982433 / 36028797018963968" 55 7566047373982433] by simp
  have e2: "fl (7566047373982433 / 216172782113783808) = 5044031582654955 / 144115188075855872"
    using fl_eval [of "7566047373982433 / 216172782113783808" 57 5044031582654955] by simp
  have e3: "fl (126100789566373875 / 36028797018963968) = 7881299347898367 / 2251799813685248"
    using fl_eval [of "126100789566373875 / 36028797018963968" 51 7881299347898367] by simp
  note e = e0 e1 e2 e3
  show ?thesis
    by (simp add: computeAbility_def fadd_def fmul_def fdiv_def Math_round_def fl_0 e)
qed

text \<open>
  Claim C8 says that the ability score of a dimension is the mean over the problems
  that the dimension map lists for it, and that other problems do not affect it. The
  dependency table lists 003400, 003401, 005000 and 005001 for discovery. In the run
  \<^term>\<open>rand_example\<close> these four problems all score 0.75 on discovery and the two others,
  010000 and 010001, score 0; the generated discovery ability is 0.5, the mean over all
  six problems, not 0.75.
\<close>

theorem generateAbilities_all_problems_example:
  "map_of generateDimensionDependencies ''discovery''
      = Some [''003400'', ''003401'', ''005000'', ''005001'']
   \<and> map (\<lambda>p. (rp_problem_id p, map_of (rp_dimension_scores p) ''discovery''))
         (generateProblems rand_example)
       = [(''003400'', Some (3 / 4)), (''003401'', Some (3 / 4)), (''005000'', Some (3 / 4)),
          (''005001'', Some (3 / 4)), (''010000'', Some 0), (''010001'', Some 0)]
   \<and> generateAbilities rand_example
       = Some [\<lparr> dimension_id = ''discovery'', score = 1 / 2 \<rparr>,
               \<lparr> dimension_id = ''representation'', score = 3 / 4 \<rparr>,
               \<lparr> dimension_id = ''iterative-refinement'', score = 3 / 4 \<rparr>,
               \<lparr> dimension_id = ''exploratory'', score = 3 / 4 \<rparr>,
               \<lparr> dimension_id = ''self-verification'', score = 3 / 4 \<rparr>]"
proof -
  have d: "fl 3 = 3" "fl 50 = 50" "fl 75 = 75" "fl (1 / 2) = 1 / 2" "fl (3 / 4) = 3 / 4"
    "fl (3 / 2) = 3 / 2" "fl (9 / 4) = 9 / 4" "fl (15 / 4) = 15 / 4" "fl (9 / 2) = 9 / 2"
    using fl_of_int [of 3] fl_of_int [of 50] fl_of_int [of 75] fl_dyadic [of 1 1]
      fl_dyadic [of 3 2] fl_dyadic [of 3 1] fl_dyadic [of 9 2] fl_dyadic [of 15 2]
      fl_dyadic [of 9 1]
    by simp_all
  have ps: "generateProblems rand_example =
     map (\<lambda>(pid, x). \<lparr> rp_problem_id = pid,
                rp_dimension_scores =
                  [(''discovery'', x), (''representation'', 3 / 4),
                   (''iterative-refinement'', 3 / 4), (''exploratory'', 3 / 4),
                   (''self-verification'', 3 / 4)],
                rp_objective_score = 3 / 4 \<rparr>)
         [(''003400'', 3 / 4), (''003401'', 3 / 4), (''005000'', 3 / 4), (''005001'', 3 / 4),
          (''010000'', 0), (''010001'', 0)]"
    by (simp add: generateProblems_eval rand_example_def PROBLEM_IDS_def randomScore_0
        randomScore_3_4)
  show ?thesis
    by (simp add: generateDimensionDependencies_def generateAbilities_def Let_def ps
        computeAbility_def DIMENSION_IDS_def fadd_def fmul_def fdiv_def Math_round_def fl_0 d)
qed

subsection \<open>Compatibility of a curve and scores\<close>

lemma set_Set_add: "set (Set_add s x) = insert x (set s)"
  by (auto simp: Set_add_def)

lemma distinct_Set_add: "distinct s \<Longrightarrow> distinct (Set_add s x)"
  by (simp add: Set_add_def)

lemma foldl_Set_add: "set (foldl Set_add s xs) = set s \<union> set xs"
  by (induction xs arbitrary: s) (simp_all add: set_Set_add)

lemma distinct_foldl_Set_add: "distinct s \<Longrightarrow> distinct (foldl Set_add s xs)"
  by (induction xs arbitrary: s) (simp_all add: distinct_Set_add)

lemma set_new_Set: "set (new_Set xs) = set xs"
  by (simp add: new_Set_def foldl_Set_add)

lemma distinct_new_Set: "distinct (new_Set xs)"
  by (simp add: new_Set_def distinct_foldl_Set_add)

lemma extractBaseProblemId_butlast: "extractBaseProblemId p = butlast p"
  by (simp add: extractBaseProblemId_def butlast_conv_take)

lemma hasMatch_iff:
  "hasMatch options pid others \<longleftrightarrow> compareKey options pid \<in> compareKey options ` set others"
  by (auto simp: hasMatch_def compareKey_def list_ex_iff Let_def image_iff) metis

lemma checkCompatibility_reasons:
  "checkCompatibility cv ss options =
     (let rs = problemIdDifferences (new_Set (problem_ids cv))
                 (new_Set (map problem_id (problem_scores ss))) options
               @ dimensionIdDifferences (new_Set (dimension_ids cv))
                   (new_Set (map dimension_id (ability_scores ss)))
      in if rs = [] then Compatible else Incompatible rs)"
  by (simp add: checkCompatibility_def Let_def)

lemma problemIdDifferences_Nil:
  "problemIdDifferences cps sps options = [] \<longleftrightarrow>
     compareKey options ` set cps = compareKey options ` set sps"
  by (auto simp: problemIdDifferences_def hasMatch_iff filter_empty_conv)

lemma dimensionIdDifferences_Nil:
  "dimensionIdDifferences cds sds = [] \<longleftrightarrow> set cds = set sds"
  by (auto simp: dimensionIdDifferences_def filter_empty_conv)

lemma distinct_set_singleton:
  assumes "distinct xs" "set xs = {a}"
  shows "xs = [a]"
proof (cases xs)
  case Nil
  with assms show ?thesis by simp
next
  case (Cons x ys)
  with assms have "x = a" "set ys \<subseteq> {a}" "a \<notin> set ys" by auto
  then have "ys = []" by (cases ys) auto
  with Cons \<open>x = a\<close> show ?thesis by simp
qed


text \<open>
  Claim checkCompatibility_incompatible_reasons. When the problem sets or the dimension sets of a curve and of scores do not
  match, the check returns \<^verbatim>\<open>incompatible\<close>, and its reasons are, in this order: one
  message "Curve has ... but scores missing it" for each problem of the curve without a
  match in the scores, one message "Scores has ... but curve missing it" for each problem
  of the scores without a match in the curve, and the same two groups for the
  dimensions. Each unmatched item gives exactly one reason (the lists below are distinct
  and enumerate exactly the unmatched items), and the two directions are reported
  separately. Problems are matched by \<^term>\<open>compareKey\<close>: verbatim unless the language
  option is set.
\<close>

theorem checkCompatibility_incompatible_reasons:
  assumes "compareKey options ` set (problem_ids cv)
             \<noteq> compareKey options ` set (map problem_id (problem_scores ss))
           \<or> set (dimension_ids cv) \<noteq> set (map dimension_id (ability_scores ss))"
  shows "\<exists>pc ps dc ds.
           distinct pc \<and> distinct ps \<and> distinct dc \<and> distinct ds
         \<and> set pc = {p \<in> set (problem_ids cv).
                        compareKey options p
                          \<notin> compareKey options ` set (map problem_id (problem_scores ss))}
         \<and> set ps = {p \<in> set (map problem_id (problem_scores ss)).
                        compareKey options p \<notin> compareKey options ` set (problem_ids cv)}
         \<and> set dc = set (dimension_ids cv) - set (map dimension_id (ability_scores ss))
         \<and> set ds = set (map dimension_id (ability_scores ss)) - set (dimension_ids cv)
         \<and> checkCompatibility cv ss options =
             Incompatible (map curve_has_msg pc @ map scores_has_msg ps
                           @ map curve_has_msg dc @ map scores_has_msg ds)"
proof -
  define cps where "cps = new_Set (problem_ids cv)"
  define sps where "sps = new_Set (map problem_id (problem_scores ss))"
  define cds where "cds = new_Set (dimension_ids cv)"
  define sds where "sds = new_Set (map dimension_id (ability_scores ss))"
  define pc where "pc = filter (\<lambda>pid. \<not> hasMatch options pid sps) cps"
  define ps where "ps = filter (\<lambda>pid. \<not> hasMatch options pid cps) sps"
  define dc where "dc = filter (\<lambda>did. did \<notin> set sds) cds"
  define ds where "ds = filter (\<lambda>did. did \<notin> set cds) sds"
  have sets: "set cps = set (problem_ids cv)" "set sps = set (map problem_id (problem_scores ss))"
    "set cds = set (dimension_ids cv)" "set sds = set (map dimension_id (ability_scores ss))"
    by (simp_all only: cps_def sps_def cds_def sds_def set_new_Set)
  have dist: "distinct pc" "distinct ps" "distinct dc" "distinct ds"
    by (simp_all add: pc_def ps_def dc_def ds_def cps_def sps_def cds_def sds_def distinct_new_Set)
  have s1: "set pc = {p \<in> set (problem_ids cv).
                        compareKey options p
                          \<notin> compareKey options ` set (map problem_id (problem_scores ss))}"
    unfolding pc_def by (simp only: set_filter hasMatch_iff sets)
  have s2: "set ps = {p \<in> set (map problem_id (problem_scores ss)).
                        compareKey options p \<notin> compareKey options ` set (problem_ids cv)}"
    unfolding ps_def by (simp only: set_filter hasMatch_iff sets)
  have s3: "set dc = set (dimension_ids cv) - set (map dimension_id (ability_scores ss))"
    unfolding dc_def using sets by auto
  have s4: "set ds = set (map dimension_id (ability_scores ss)) - set (dimension_ids cv)"
    unfolding ds_def using sets by auto
  have ne: "problemIdDifferences cps sps options @ dimensionIdDifferences cds sds \<noteq> []"
    using assms by (simp only: append_is_Nil_conv problemIdDifferences_Nil
        dimensionIdDifferences_Nil sets) blast
  have rs: "problemIdDifferences cps sps options @ dimensionIdDifferences cds sds =
     map curve_has_msg pc @ map scores_has_msg ps @ map curve_has_msg dc @ map scores_has_msg ds"
    by (simp add: problemIdDifferences_def dimensionIdDifferences_def pc_def ps_def dc_def ds_def)
  have "checkCompatibility cv ss options =
     Incompatible (map curve_has_msg pc @ map scores_has_msg ps
                           @ map curve_has_msg dc @ map scores_has_msg ds)"
    using ne unfolding checkCompatibility_reasons Let_def rs cps_def[symmetric] sps_def[symmetric]
      cds_def[symmetric] sds_def[symmetric] by simp
  with dist s1 s2 s3 s4 show ?thesis by blast
qed


text \<open>
  The curve problems \<open>{A, B}\<close> against the scores problems \<open>{A, C}\<close>: one reason for B and
  one for C.
\<close>

theorem checkCompatibility_incompatible_reasons_witness:
  "compareKey None ` set (problem_ids ex_curve_AB)
      \<noteq> compareKey None ` set (map problem_id (problem_scores ex_scores_AC))
   \<and> (\<exists>pc ps dc ds.
           distinct pc \<and> distinct ps \<and> distinct dc \<and> distinct ds
         \<and> set pc = {''B''} \<and> set ps = {''C''} \<and> set dc = {} \<and> set ds = {}
         \<and> checkCompatibility ex_curve_AB ex_scores_AC None =
             Incompatible (map curve_has_msg pc @ map scores_has_msg ps
                           @ map curve_has_msg dc @ map scores_has_msg ds))
   \<and> checkCompatibility ex_curve_AB ex_scores_AC None =
       Incompatible [''Curve has B but scores missing it'', ''Scores has C but curve missing it'']"
proof -
  have k: "compareKey None = id"
    by (simp add: compareKey_def allowLanguage_def fun_eq_iff)
  have "''B'' \<in> compareKey None ` set (problem_ids ex_curve_AB)"
    "''B'' \<notin> compareKey None ` set (map problem_id (problem_scores ex_scores_AC))"
    by (simp_all add: k ex_curve_AB_def ex_scores_AC_def ex_curve_def ex_scores_def)
  then have h: "compareKey None ` set (problem_ids ex_curve_AB)
      \<noteq> compareKey None ` set (map problem_id (problem_scores ex_scores_AC))"
    by metis
  have s1: "{p \<in> set (problem_ids ex_curve_AB).
               compareKey None p
                 \<notin> compareKey None ` set (map problem_id (problem_scores ex_scores_AC))} = {''B''}"
    by (auto simp: k ex_curve_AB_def ex_scores_AC_def ex_curve_def ex_scores_def)
  have s2: "{p \<in> set (map problem_id (problem_scores ex_scores_AC)).
               compareKey None p \<notin> compareKey None ` set (problem_ids ex_curve_AB)} = {''C''}"
    by (auto simp: k ex_curve_AB_def ex_scores_AC_def ex_curve_def ex_scores_def)
  have s3: "set (dimension_ids ex_curve_AB) - set (map dimension_id (ability_scores ex_scores_AC)) = {}"
    "set (map dimension_id (ability_scores ex_scores_AC)) - set (dimension_ids ex_curve_AB) = {}"
    by (auto simp: ex_curve_AB_def ex_scores_AC_def ex_curve_def ex_scores_def)
  from checkCompatibility_incompatible_reasons [of None ex_curve_AB ex_scores_AC, OF disjI1, OF h]
  obtain pc ps dc ds where *:
    "distinct pc" "distinct ps" "distinct dc" "distinct ds"
    "set pc = {''B''}" "set ps = {''C''}" "set dc = {}" "set ds = {}"
    "checkCompatibility ex_curve_AB ex_scores_AC None =
             Incompatible (map curve_has_msg pc @ map scores_has_msg ps
                           @ map curve_has_msg dc @ map scores_has_msg ds)"
    unfolding s1 s2 s3 by (elim exE conjE) (rule that; assumption)
  have vals: "pc = [''B'']" "ps = [''C'']" "dc = []" "ds = []"
    using *(7,8) distinct_set_singleton [OF *(1) *(5)] distinct_set_singleton [OF *(2) *(6)]
    by simp_all
  have r: "checkCompatibility ex_curve_AB ex_scores_AC None =
       Incompatible [''Curve has B but scores missing it'', ''Scores has C but curve missing it'']"
    using *(9) unfolding vals by (simp add: curve_has_msg_def scores_has_msg_def)
  have "\<exists>pc ps dc ds.
           distinct pc \<and> distinct ps \<and> distinct dc \<and> distinct ds
         \<and> set pc = {''B''} \<and> set ps = {''C''} \<and> set dc = {} \<and> set ds = {}
         \<and> checkCompatibility ex_curve_AB ex_scores_AC None =
             Incompatible (map curve_has_msg pc @ map scores_has_msg ps
                           @ map curve_has_msg dc @ map scores_has_msg ds)"
    using * by (intro exI conjI)
  with h r show ?thesis by (intro conjI)
qed

text \<open>
  Claim checkCompatibility_language_variant. \<^verbatim>\<open>extractBaseProblemId\<close> drops the trailing (language) digit. With equal
  dimension sets, the check under the language option returns \<^verbatim>\<open>compatible\<close> exactly when
  the problem ids of the curve and of the scores have the same set of base ids, so ids
  that differ only in their last digit produce no reason; without the option it returns
  \<^verbatim>\<open>compatible\<close> exactly when the two sets of ids are equal verbatim.
\<close>

theorem checkCompatibility_language_variant:
  assumes "set (dimension_ids cv) = set (map dimension_id (ability_scores ss))"
  shows "extractBaseProblemId (base @ [digit]) = base
       \<and> (checkCompatibility cv ss options = Compatible \<longleftrightarrow>
           (if allowLanguage options
            then extractBaseProblemId ` set (problem_ids cv)
                   = extractBaseProblemId ` set (map problem_id (problem_scores ss))
            else set (problem_ids cv) = set (map problem_id (problem_scores ss))))"
proof -
  have d: "dimensionIdDifferences (new_Set (dimension_ids cv))
             (new_Set (map dimension_id (ability_scores ss))) = []"
    using assms by (simp only: dimensionIdDifferences_Nil set_new_Set)
  have "checkCompatibility cv ss options = Compatible \<longleftrightarrow>
        compareKey options ` set (problem_ids cv)
          = compareKey options ` set (map problem_id (problem_scores ss))"
    unfolding checkCompatibility_reasons Let_def d
    by (simp add: problemIdDifferences_Nil set_new_Set del: set_map)
  moreover have "compareKey options = (if allowLanguage options then extractBaseProblemId else id)"
    by (auto simp: compareKey_def fun_eq_iff)
  ultimately show ?thesis
    by (simp add: extractBaseProblemId_def del: set_map)
qed


text \<open>
  A curve over 003400 and 005000 against scores over 003401 and 005001: compatible under
  the language option, not compatible without it.
\<close>

theorem checkCompatibility_language_variant_witness:
  "set (dimension_ids ex_curve_zh) = set (map dimension_id (ability_scores ex_scores_en))
   \<and> extractBaseProblemId (''00340'' @ [CHR ''0'']) = ''00340''
   \<and> checkCompatibility ex_curve_zh ex_scores_en lang_option = Compatible
   \<and> checkCompatibility ex_curve_zh ex_scores_en None \<noteq> Compatible"
proof -
  have h: "set (dimension_ids ex_curve_zh) = set (map dimension_id (ability_scores ex_scores_en))"
    by (simp add: ex_curve_zh_def ex_scores_en_def ex_curve_def ex_scores_def)
  have a: "allowLanguage lang_option" "\<not> allowLanguage None"
    by (simp_all add: allowLanguage_def lang_option_def)
  have b: "extractBaseProblemId ` set (problem_ids ex_curve_zh)
             = extractBaseProblemId ` set (map problem_id (problem_scores ex_scores_en))"
    by (simp add: ex_curve_zh_def ex_scores_en_def ex_curve_def ex_scores_def
        extractBaseProblemId_def)
  have "''003400'' \<in> set (problem_ids ex_curve_zh)"
    "''003400'' \<notin> set (map problem_id (problem_scores ex_scores_en))"
    by (simp_all add: ex_curve_zh_def ex_scores_en_def ex_curve_def ex_scores_def)
  then have c: "set (problem_ids ex_curve_zh) \<noteq> set (map problem_id (problem_scores ex_scores_en))"
    by metis
  from checkCompatibility_language_variant [OF h, of "''00340''" "CHR ''0''" lang_option] checkCompatibility_language_variant [OF h, of "''00340''" "CHR ''0''" None]
  show ?thesis using h a b c by simp
qed

text \<open>
  Claim C4 says that matching sets with a different prompt version hash give
  \<^verbatim>\<open>requires_override\<close>. The scores object carries no prompt hash and the check reads
  none: with matching sets the result is \<^verbatim>\<open>compatible\<close> for two curves that differ in
  their prompt hash only, so for at least one of them the hash is not that of the
  scores' report.
\<close>

theorem checkCompatibility_prompt_hash_counterexample:
  "''abc1234def5678'' \<noteq> ''fff0000fff0000''
   \<and> checkCompatibility (ex_curve\<lparr>prompt_version_hash := ''abc1234def5678''\<rparr>) ex_scores None
       = Compatible
   \<and> checkCompatibility (ex_curve\<lparr>prompt_version_hash := ''fff0000fff0000''\<rparr>) ex_scores None
       = Compatible"
  by (simp add: checkCompatibility_def Let_def new_Set_def Set_add_def problemIdDifferences_def
      dimensionIdDifferences_def hasMatch_def allowLanguage_def ex_curve_def ex_scores_def)

text \<open>
  Claim C4, amended. For every curve and scores whose problem-id sets and dimension-id
  sets match, the check returns \<^verbatim>\<open>compatible\<close> whatever the prompt version hash of the
  curve is; the check does not compare prompt hashes, and no input makes it return
  \<^verbatim>\<open>requires_override\<close>.
\<close>

theorem checkCompatibility_ignores_prompt_hash:
  assumes "set (problem_ids cv) = set (map problem_id (problem_scores ss))"
      and "set (dimension_ids cv) = set (map dimension_id (ability_scores ss))"
  shows "checkCompatibility (cv\<lparr>prompt_version_hash := h\<rparr>) ss options = Compatible
       \<and> checkCompatibility cv' ss' options' \<noteq> Requires_override ws df"
proof -
  have "problemIdDifferences (new_Set (problem_ids cv))
          (new_Set (map problem_id (problem_scores ss))) options = []"
    using assms(1) by (simp only: problemIdDifferences_Nil set_new_Set)
  moreover have "dimensionIdDifferences (new_Set (dimension_ids cv))
             (new_Set (map dimension_id (ability_scores ss))) = []"
    using assms(2) by (simp only: dimensionIdDifferences_Nil set_new_Set)
  ultimately have "checkCompatibility (cv\<lparr>prompt_version_hash := h\<rparr>) ss options = Compatible"
    by (simp add: checkCompatibility_reasons)
  moreover have "checkCompatibility cv' ss' options' \<noteq> Requires_override ws df"
    by (simp add: checkCompatibility_reasons Let_def)
  ultimately show ?thesis by simp
qed

theorem checkCompatibility_ignores_prompt_hash_witness:
  "set (problem_ids ex_curve) = set (map problem_id (problem_scores ex_scores))
   \<and> set (dimension_ids ex_curve) = set (map dimension_id (ability_scores ex_scores))
   \<and> checkCompatibility (ex_curve\<lparr>prompt_version_hash := ''fff0000fff0000''\<rparr>) ex_scores None
       = Compatible"
proof -
  have h1: "set (problem_ids ex_curve) = set (map problem_id (problem_scores ex_scores))"
    by (simp add: ex_curve_def ex_scores_def)
  have h2: "set (dimension_ids ex_curve) = set (map dimension_id (ability_scores ex_scores))"
    by (simp add: ex_curve_def ex_scores_def)
  from checkCompatibility_ignores_prompt_hash [OF h1 h2] h1 h2 show ?thesis by blast
qed

end
